theory Spec2Isabelle
  imports Complex_Main "HOL-Library.Word"
begin

section \<open>Go values, requests, responses and errors\<close>

text \<open>
  A value of Go's \<^verbatim>\<open>interface{}\<close> is a dynamic type together with a value of it.
  The constructors are the dynamic types that occur in client.go: the nil interface,
  what encoding/json stores into an \<^verbatim>\<open>interface{}\<close> (bool, float64, string,
  \<^verbatim>\<open>[]interface{}\<close>, \<^verbatim>\<open>map[string]interface{}\<close>), the int64 of an order's
  price and quantity, and \<^verbatim>\<open>[]map[string]interface{}\<close>, which ListVenueStocks
  asserts. A Go map is an association list read with \<open>map_of\<close>.
\<close>

datatype iface =
    GoNil
  | GoBool bool
  | GoFloat64 real
  | GoInt64 "64 word"
  | GoString string
  | GoSlice "iface list"
  | GoMapSlice "(string \<times> iface) list list"
  | GoMap "(string \<times> iface) list"

type_synonym gomap = "(string \<times> iface) list"

text \<open>\<^verbatim>\<open>m[key]\<close> on a \<^verbatim>\<open>map[string]interface{}\<close>: a missing key reads as the nil interface.\<close>

definition index :: "gomap \<Rightarrow> string \<Rightarrow> iface" where
  "index m key = (case map_of m key of None \<Rightarrow> GoNil | Some v \<Rightarrow> v)"

text \<open>A panic of the Go runtime (a failed type assertion, an index out of range) or a return.\<close>

datatype 'a outcome = Panic | Return 'a

text \<open>
  error.go: \<^verbatim>\<open>type APIError struct { Code int; Message string }\<close>. The other
  constructors are the errors of net/http and encoding/json that Call hands on; each
  keeps the library's message.
\<close>

datatype error =
    NewRequestError string
  | MarshalError string
  | UrlError string
  | ReadError string
  | InvalidUnmarshalError
  | UnmarshalError string
  | APIError int string

record request =
  Method :: string
  URL :: string
  Header :: "string \<rightharpoonup> string list"
  ReqBody :: "string option"

record response =
  StatusCode :: int
  Body :: string

text \<open>client.go: \<^verbatim>\<open>type Client struct { Token string; Location string; Client http.Client }\<close>.\<close>

record 'h client =
  Token :: string
  Location :: string
  Client :: 'h

definition AuthHeader :: string where
  "AuthHeader = ''X-Starfighter-Authorization''"

definition APILocation :: string where
  "APILocation = ''https://api.stockfighter.io/ob/api''"

text \<open>The structs of the third source file that a typed method decodes into.\<close>

datatype kind = OrderBook | OrderResult | OrderResultAlt | OrderResultList | StockQuote

record Stock =
  Name :: string
  Symbol :: string

section \<open>The libraries the client calls\<close>

text \<open>
  net/http and encoding/json are not part of the repository. What they compute is a
  parameter of the model:
  \<^item> \<open>NewRequest_err method url\<close>: the message with which http.NewRequest refuses
    the method or the URL, if it does;
  \<^item> \<open>parsedURL url\<close>: the URL of the request that http.NewRequest builds from a
    string it accepts, written as a string again (url.Parse, then URL.String): the
    scheme in lower case, the path escaped, an empty port and a fragment removed;
  \<^item> \<open>Do h req\<close>: http.Client.Do on the transport state \<open>h\<close>; it fails with a
    \<^verbatim>\<open>*url.Error\<close> (its message) or returns a response, and leaves a new state;
  \<^item> \<open>Marshal v\<close>: the JSON text of a non-nil value, or the encoder's message;
  \<^item> \<open>readValue raw\<close>: the next JSON value a decoder reads from \<open>raw\<close> (or the
    message of the syntax, end-of-input or read error), and the bytes it took from the
    reader in doing so;
  \<^item> \<open>Unmarshal k v\<close>: the struct of kind \<open>k\<close> after storing \<open>v\<close> into its zero
    value \<open>zeroValue k\<close>, and the message of the error if the shapes differ.
\<close>

record ('h, 's) env =
  NewRequest_err :: "string \<Rightarrow> string \<Rightarrow> string option"
  parsedURL :: "string \<Rightarrow> string"
  Do :: "'h \<Rightarrow> request \<Rightarrow> (string + response) \<times> 'h"
  Marshal :: "iface \<Rightarrow> string + string"
  readValue :: "string \<Rightarrow> (string + iface) \<times> string"
  Unmarshal :: "kind \<Rightarrow> iface \<Rightarrow> 's \<times> string option"
  zeroValue :: "kind \<Rightarrow> 's"

text \<open>
  http.NewRequest(method, url, body): an empty method means GET; the URL of the new
  request is the parsed one, not the string given; the new request has no header yet.
\<close>

definition NewRequest ::
  "('h, 's) env \<Rightarrow> string \<Rightarrow> string \<Rightarrow> string option \<Rightarrow> error + request" where
  "NewRequest env method url body =
     (case NewRequest_err env method url of
        Some msg \<Rightarrow> Inl (NewRequestError msg)
      | None \<Rightarrow> Inr \<lparr>Method = (if method = [] then ''GET'' else method), URL = parsedURL env url,
                      Header = Map.empty, ReqBody = body\<rparr>)"

text \<open>
  http.Header.Add appends the value to the values of the key. It first puts the key in
  canonical form; \<open>AuthHeader\<close>, the only key the client adds, is its own canonical form.
\<close>

definition Header_Add ::
  "(string \<rightharpoonup> string list) \<Rightarrow> string \<Rightarrow> string \<Rightarrow> (string \<rightharpoonup> string list)" where
  "Header_Add h key v = h(key \<mapsto> (case h key of None \<Rightarrow> [] | Some vs \<Rightarrow> vs) @ [v])"

text \<open>json.Encoder.Encode writes the JSON text and a newline; nil is \<^verbatim>\<open>null\<close>.\<close>

definition Encode :: "('h, 's) env \<Rightarrow> iface \<Rightarrow> error + string" where
  "Encode env v =
     (case v of
        GoNil \<Rightarrow> Inr (''null'' @ [CHR 0x0A])
      | _ \<Rightarrow> (case Marshal env v of
                Inl msg \<Rightarrow> Inl (MarshalError msg)
              | Inr s \<Rightarrow> Inr (s @ [CHR 0x0A])))"

text \<open>
  json.Decoder.Decode(v) where \<open>v\<close> is not a pointer, as in \<^verbatim>\<open>decoder.Decode(body)\<close>
  of Call: the decoder reads the next value, and then unmarshal refuses the target with
  an InvalidUnmarshalError. The second component is what the decoder read, which the
  TeeReader of Call copies.
\<close>

definition Decode_value :: "('h, 's) env \<Rightarrow> string \<Rightarrow> error option \<times> string" where
  "Decode_value env raw =
     (case readValue env raw of
        (Inl msg, rd) \<Rightarrow> (Some (ReadError msg), rd)
      | (Inr v, rd) \<Rightarrow> (Some InvalidUnmarshalError, rd))"

text \<open>json.Decoder.Decode(&x) where \<open>x\<close> is the zero value of a struct of kind \<open>k\<close>.\<close>

definition Decode_pointer :: "('h, 's) env \<Rightarrow> string \<Rightarrow> kind \<Rightarrow> 's \<times> error option" where
  "Decode_pointer env raw k =
     (case readValue env raw of
        (Inl msg, rd) \<Rightarrow> (zeroValue env k, Some (ReadError msg))
      | (Inr v, rd) \<Rightarrow>
          (case Unmarshal env k v of
             (x, None) \<Rightarrow> (x, None)
           | (x, Some msg) \<Rightarrow> (x, Some (UnmarshalError msg))))"

text \<open>fmt.Sprintf of \<^verbatim>\<open>%d\<close> with an int64: the decimal digits of the signed value.\<close>

fun decimal :: "nat \<Rightarrow> string" where
  "decimal n =
     (if n < 10 then [char_of (48 + n)] else decimal (n div 10) @ [char_of (48 + n mod 10)])"

definition Sprintf_d :: "64 word \<Rightarrow> string" where
  "Sprintf_d w = (if sint w < 0 then CHR ''-'' # decimal (nat (- sint w)) else decimal (nat (sint w)))"

section \<open>client.go\<close>

text \<open>
  A method of \<^verbatim>\<open>*Client\<close> takes the client and returns it with its result: the
  transport state in the field \<open>Client\<close> is what http.Client.Do left.
\<close>

text \<open>CallReq sets the authorization header and runs the request.\<close>

definition CallReq ::
  "('h, 's) env \<Rightarrow> 'h client \<Rightarrow> request \<Rightarrow> (error + response) \<times> 'h client" where
  "CallReq env c req =
     (case Do env (Client c) (req\<lparr>Header := Header_Add (Header req) AuthHeader (Token c)\<rparr>) of
        (Inl cause, h) \<Rightarrow> (Inl (UrlError cause), c\<lparr>Client := h\<rparr>)
      | (Inr resp, h) \<Rightarrow> (Inr resp, c\<lparr>Client := h\<rparr>))"

text \<open>
  Call, "set up the request" (lines 39 to 53): the request without a body is built
  first; where \<^verbatim>\<open>data == nil\<close> holds, \<open>data\<close> is encoded into a buffer and the
  request is built again with that buffer as its body.
\<close>

definition Call_request ::
  "('h, 's) env \<Rightarrow> 'h client \<Rightarrow> string \<Rightarrow> string \<Rightarrow> iface \<Rightarrow> error + request" where
  "Call_request env c method endpoint data =
     (if data = GoNil then
        (case Encode env data of
           Inl err \<Rightarrow> Inl err
         | Inr buf \<Rightarrow> NewRequest env method (Location c @ endpoint) (Some buf))
      else NewRequest env method (Location c @ endpoint) None)"

text \<open>
  Call, "check for errors as a precaution" (lines 75 to 84): the APIError is built
  where \<^verbatim>\<open>body["ok"] != false\<close> holds, with the type assertion
  \<^verbatim>\<open>body["error"].(string)\<close>, which panics on any other dynamic type.
\<close>

definition Call_check ::
  "int \<Rightarrow> gomap \<Rightarrow> string \<Rightarrow> (gomap option \<times> string option \<times> error option) outcome" where
  "Call_check status body copy =
     (if index body ''ok'' \<noteq> GoBool False then
        (case index body ''error'' of
           GoString msg \<Rightarrow> Return (Some body, Some copy, Some (APIError status msg))
         | _ \<Rightarrow> Panic)
      else Return (Some body, Some copy, None))"

text \<open>
  Call, from the response on (lines 61 to 84): \<open>body\<close> is the empty map, the decoder
  is given \<open>body\<close> itself, and \<open>copy\<close> holds what the decoder read.
\<close>

definition Call_response ::
  "('h, 's) env \<Rightarrow> response \<Rightarrow> (gomap option \<times> string option \<times> error option) outcome" where
  "Call_response env resp =
     (let body = [];
          (derr, copy) = Decode_value env (Body resp)
      in case derr of
           Some err \<Rightarrow> Return (None, Some copy, Some err)
         | None \<Rightarrow> Call_check (StatusCode resp) body copy)"

definition Call ::
  "('h, 's) env \<Rightarrow> 'h client \<Rightarrow> string \<Rightarrow> string \<Rightarrow> iface \<Rightarrow>
     (gomap option \<times> string option \<times> error option) outcome \<times> 'h client" where
  "Call env c method endpoint data =
     (case Call_request env c method endpoint data of
        Inl err \<Rightarrow> (Return (None, None, Some err), c)
      | Inr req \<Rightarrow>
          (case CallReq env c req of
             (Inl err, c') \<Rightarrow> (Return (None, None, Some err), c')
           | (Inr resp, c') \<Rightarrow> (Call_response env resp, c')))"

text \<open>Heartbeat and VenueHealthCheck: \<^verbatim>\<open>return err == nil\<close>.\<close>

definition no_error ::
  "(gomap option \<times> string option \<times> error option) outcome \<Rightarrow> bool outcome" where
  "no_error r = (case r of Panic \<Rightarrow> Panic | Return (_, _, err) \<Rightarrow> Return (err = None))"

definition Heartbeat :: "('h, 's) env \<Rightarrow> 'h client \<Rightarrow> bool outcome \<times> 'h client" where
  "Heartbeat env c = (let (r, c') = Call env c ''GET'' ''/heartbeat'' GoNil in (no_error r, c'))"

definition VenueHealthCheck ::
  "('h, 's) env \<Rightarrow> 'h client \<Rightarrow> string \<Rightarrow> bool outcome \<times> 'h client" where
  "VenueHealthCheck env c venue =
     (let (r, c') = Call env c ''GET'' (''/venues/'' @ venue @ ''/heartbeat'') GoNil
      in (no_error r, c'))"

text \<open>
  ListVenueStocks, after Call: \<open>stocks\<close> has the length of
  \<^verbatim>\<open>resp["symbols"].([]interface{})\<close>, and the loop ranges over
  \<^verbatim>\<open>resp["symbols"].([]map[string]interface{})\<close>, storing at index \<open>k\<close>.
\<close>

fun fill_stocks :: "nat \<Rightarrow> gomap list \<Rightarrow> Stock list \<Rightarrow> Stock list outcome" where
  "fill_stocks k [] stocks = Return stocks"
| "fill_stocks k (v # vs) stocks =
     (case index v ''name'' of
        GoString n \<Rightarrow>
          (case index v ''symbol'' of
             GoString s \<Rightarrow>
               (if k < length stocks
                then fill_stocks (Suc k) vs (stocks[k := \<lparr>Name = n, Symbol = s\<rparr>])
                else Panic)
           | _ \<Rightarrow> Panic)
      | _ \<Rightarrow> Panic)"

definition ListVenueStocks_symbols :: "gomap option \<Rightarrow> (Stock list option \<times> error option) outcome" where
  "ListVenueStocks_symbols resp =
     (let symbols = index (case resp of None \<Rightarrow> [] | Some m \<Rightarrow> m) ''symbols''
      in case symbols of
           GoSlice xs \<Rightarrow>
             (let stocks = replicate (length xs) \<lparr>Name = [], Symbol = []\<rparr>
              in case symbols of
                   GoMapSlice ms \<Rightarrow>
                     (case fill_stocks 0 ms stocks of
                        Panic \<Rightarrow> Panic
                      | Return stocks' \<Rightarrow> Return (Some stocks', None))
                 | _ \<Rightarrow> Panic)
         | _ \<Rightarrow> Panic)"

definition ListVenueStocks ::
  "('h, 's) env \<Rightarrow> 'h client \<Rightarrow> string \<Rightarrow>
     (Stock list option \<times> error option) outcome \<times> 'h client" where
  "ListVenueStocks env c venue =
     (let (r, c') = Call env c ''GET'' (''/venues/'' @ venue @ ''/stocks'') GoNil
      in (case r of
            Panic \<Rightarrow> Panic
          | Return (resp, _, err) \<Rightarrow>
              (case err of
                 Some e \<Rightarrow> Return (None, Some e)
               | None \<Rightarrow> ListVenueStocks_symbols resp),
          c'))"

text \<open>
  The lines every other typed method shares after Call: the error of Call is returned
  with a nil result; otherwise \<open>copy\<close> is decoded into the zero value of the struct,
  and the struct is returned with the error of the decoder. Reading a nil buffer panics.
\<close>

definition decode_copy ::
  "('h, 's) env \<Rightarrow> kind \<Rightarrow> (gomap option \<times> string option \<times> error option) outcome \<Rightarrow>
     ('s option \<times> error option) outcome" where
  "decode_copy env k r =
     (case r of
        Panic \<Rightarrow> Panic
      | Return (_, copy, err) \<Rightarrow>
          (case err of
             Some e \<Rightarrow> Return (None, Some e)
           | None \<Rightarrow>
               (case copy of
                  None \<Rightarrow> Panic
                | Some raw \<Rightarrow> (let (x, derr) = Decode_pointer env raw k in Return (Some x, derr)))))"

definition GetStockOrderbook ::
  "('h, 's) env \<Rightarrow> 'h client \<Rightarrow> string \<Rightarrow> string \<Rightarrow>
     ('s option \<times> error option) outcome \<times> 'h client" where
  "GetStockOrderbook env c venue stock =
     (let (r, c') = Call env c ''GET'' (''/venues/'' @ venue @ ''/stocks/'' @ stock) GoNil
      in (decode_copy env OrderBook r, c'))"

definition PlaceStockOrder ::
  "('h, 's) env \<Rightarrow> 'h client \<Rightarrow> string \<Rightarrow> string \<Rightarrow> string \<Rightarrow> 64 word \<Rightarrow> 64 word \<Rightarrow>
     string \<Rightarrow> string \<Rightarrow> ('s option \<times> error option) outcome \<times> 'h client" where
  "PlaceStockOrder env c account venue stock price qty direction ordertype =
     (let (r, c') = Call env c ''POST'' (''/venues/'' @ venue @ ''/stocks/'' @ stock @ ''/orders'')
                      (GoMap [(''account'', GoString account),
                              (''venue'', GoString venue),
                              (''stock'', GoString stock),
                              (''price'', GoInt64 price),
                              (''qty'', GoInt64 qty),
                              (''direction'', GoString direction),
                              (''orderType'', GoString ordertype)])
      in (decode_copy env OrderResult r, c'))"

definition QuoteStock ::
  "('h, 's) env \<Rightarrow> 'h client \<Rightarrow> string \<Rightarrow> string \<Rightarrow>
     ('s option \<times> error option) outcome \<times> 'h client" where
  "QuoteStock env c venue stock =
     (let (r, c') = Call env c ''GET''
                      (''/venues/'' @ venue @ ''/stocks/'' @ stock @ ''/quote'') GoNil
      in (decode_copy env StockQuote r, c'))"

definition GetOrderStatus ::
  "('h, 's) env \<Rightarrow> 'h client \<Rightarrow> string \<Rightarrow> string \<Rightarrow> 64 word \<Rightarrow>
     ('s option \<times> error option) outcome \<times> 'h client" where
  "GetOrderStatus env c venue stock order =
     (let (r, c') = Call env c ''GET''
                      (''/venues/'' @ venue @ ''/stocks/'' @ stock @ ''/orders/'' @ Sprintf_d order)
                      GoNil
      in (decode_copy env OrderResultAlt r, c'))"

definition CancelOrder ::
  "('h, 's) env \<Rightarrow> 'h client \<Rightarrow> string \<Rightarrow> string \<Rightarrow> 64 word \<Rightarrow>
     ('s option \<times> error option) outcome \<times> 'h client" where
  "CancelOrder env c venue stock order =
     (let (r, c') = Call env c ''DELETE''
                      (''/venues/'' @ venue @ ''/stocks/'' @ stock @ ''/orders/'' @ Sprintf_d order)
                      GoNil
      in (decode_copy env OrderResultAlt r, c'))"

definition ListVenueOrderStatus ::
  "('h, 's) env \<Rightarrow> 'h client \<Rightarrow> string \<Rightarrow> string \<Rightarrow>
     ('s option \<times> error option) outcome \<times> 'h client" where
  "ListVenueOrderStatus env c venue account =
     (let (r, c') = Call env c ''GET''
                      (''/venues/'' @ venue @ ''/accounts/'' @ account @ ''/orders'') GoNil
      in (decode_copy env OrderResultList r, c'))"

text \<open>
  ListVenueStockOrderStatus(venue, stock, account) formats
  \<^verbatim>\<open>"/venues/%s/accounts/%s/stocks/%s/orders"\<close> with the arguments
  \<^verbatim>\<open>venue, stock, account\<close>, in this order.
\<close>

definition ListVenueStockOrderStatus ::
  "('h, 's) env \<Rightarrow> 'h client \<Rightarrow> string \<Rightarrow> string \<Rightarrow> string \<Rightarrow>
     ('s option \<times> error option) outcome \<times> 'h client" where
  "ListVenueStockOrderStatus env c venue stock account =
     (let (r, c') = Call env c ''GET''
                      (''/venues/'' @ venue @ ''/accounts/'' @ stock @ ''/stocks/'' @ account
                         @ ''/orders'') GoNil
      in (decode_copy env OrderResultList r, c'))"

section \<open>Transports for stating what is sent\<close>

text \<open>
  \<open>recording env\<close> is \<open>env\<close> with a transport that also keeps, next to the state of
  the transport of \<open>env\<close>, the list of the requests it was given, oldest first.
\<close>

definition recording :: "('h, 's) env \<Rightarrow> ('h \<times> request list, 's) env" where
  "recording env =
     \<lparr>NewRequest_err = NewRequest_err env,
      parsedURL = parsedURL env,
      Do = (\<lambda>(h, log) req. case Do env h req of (r, h') \<Rightarrow> (r, (h', log @ [req]))),
      Marshal = Marshal env,
      readValue = readValue env,
      Unmarshal = Unmarshal env,
      zeroValue = zeroValue env\<rparr>"

text \<open>\<open>sends c c' rs\<close>: from \<open>c\<close> to \<open>c'\<close> the transport was given exactly the requests \<open>rs\<close>.\<close>

definition sends ::
  "('h \<times> request list) client \<Rightarrow> ('h \<times> request list) client \<Rightarrow> request list \<Rightarrow> bool" where
  "sends c c' rs = (snd (Client c') = snd (Client c) @ rs)"

text \<open>
  The URL parser of the fake transport below: a space is written \<^verbatim>\<open>%20\<close> and every
  other character is kept. This is what url.Parse and URL.String make of the URLs of
  the examples, which have a lower-case scheme, no port, no fragment, and only letters,
  digits, dots, slashes and spaces after the scheme.
\<close>

definition escape_spaces :: "string \<Rightarrow> string" where
  "escape_spaces url = concat (map (\<lambda>x. if x = CHR '' '' then ''%20'' else [x]) url)"

text \<open>
  A fake transport, as a test would inject it: every request is accepted and answered
  with \<open>reply\<close>, a decoder reads the whole input and finds the value \<open>parsed\<close>, and the
  typed structs carry nothing.
\<close>

definition fake :: "string + response \<Rightarrow> string + iface \<Rightarrow> (unit, unit) env" where
  "fake reply parsed =
     \<lparr>NewRequest_err = (\<lambda>method url. None),
      parsedURL = escape_spaces,
      Do = (\<lambda>h req. (reply, h)),
      Marshal = (\<lambda>v. Inl ''unsupported value''),
      readValue = (\<lambda>raw. (parsed, raw)),
      Unmarshal = (\<lambda>k v. ((), None)),
      zeroValue = (\<lambda>k. ())\<rparr>"

text \<open>The client of the examples: a token, the public location, nothing sent yet.\<close>

definition example_client :: "(unit \<times> request list) client" where
  "example_client = \<lparr>Token = ''secret'', Location = APILocation, Client = ((), [])\<rparr>"

text \<open>\<open>carries c endpoint r\<close>: the request has the token of \<open>c\<close> as the one value of
  the authorization header, and the location of \<open>c\<close> followed by \<open>endpoint\<close> as its URL.\<close>

definition carries :: "'h client \<Rightarrow> string \<Rightarrow> request \<Rightarrow> bool" where
  "carries c endpoint r =
     (Header r AuthHeader = Some [Token c] \<and> URL r = Location c @ endpoint)"

text \<open>\<open>all_sent c c' P\<close>: every request the transport was given from \<open>c\<close> to \<open>c'\<close>
  satisfies \<open>P\<close>.\<close>

definition all_sent ::
  "('h \<times> request list) client \<Rightarrow> ('h \<times> request list) client \<Rightarrow> (request \<Rightarrow> bool) \<Rightarrow> bool" where
  "all_sent c c' P = (\<exists>rs. sends c c' rs \<and> list_all P rs)"

text \<open>\<open>has_token c r\<close>: the token of \<open>c\<close> is the one value of the authorization header.\<close>

definition has_token :: "'h client \<Rightarrow> request \<Rightarrow> bool" where
  "has_token c r = (Header r AuthHeader = Some [Token c])"

text \<open>
  \<open>sends_built env c c' m endpoint\<close>: from \<open>c\<close> to \<open>c'\<close> the transport was given
  nothing where http.NewRequest refuses the method \<open>m\<close> or the string made of the
  location of \<open>c\<close> and \<open>endpoint\<close>; otherwise it was given exactly one request, which
  has the token of \<open>c\<close> as the one value of the authorization header and, as its URL,
  what http.NewRequest makes of that string.
\<close>

definition sends_built ::
  "('h, 's) env \<Rightarrow> ('h \<times> request list) client \<Rightarrow> ('h \<times> request list) client \<Rightarrow>
     string \<Rightarrow> string \<Rightarrow> bool" where
  "sends_built env c c' m endpoint =
     (case NewRequest_err env m (Location c @ endpoint) of
        Some msg \<Rightarrow> sends c c' []
      | None \<Rightarrow>
          (\<exists>r. sends c c' [r] \<and> has_token c r
             \<and> URL r = parsedURL env (Location c @ endpoint)))"

text \<open>The type switch of a caller of Call: whether the error is an \<^verbatim>\<open>*APIError\<close>.\<close>

definition is_APIError :: "error \<Rightarrow> bool" where
  "is_APIError e = (case e of APIError code msg \<Rightarrow> True | _ \<Rightarrow> False)"

text \<open>\<open>same_config c c'\<close>: the configuration fields of \<open>c'\<close> are those of \<open>c\<close>.\<close>

definition same_config :: "'h client \<Rightarrow> 'h client \<Rightarrow> bool" where
  "same_config c c' = (Token c' = Token c \<and> Location c' = Location c)"

section \<open>Call never returns without an error\<close>

lemma Call_response_fails:
  "\<exists>copy err. Call_response env resp = Return (None, Some copy, Some err)
     \<and> (err = InvalidUnmarshalError \<or> (\<exists>msg. err = ReadError msg))"
  unfolding Call_response_def Decode_value_def
  by (cases "readValue env (Body resp)"; cases "fst (readValue env (Body resp))") auto

lemma Call_fails: "\<exists>b copy err. fst (Call env c method endpoint data) = Return (b, copy, Some err)"
proof (cases "Call_request env c method endpoint data")
  case (Inl err)
  then show ?thesis by (simp add: Call_def)
next
  case (Inr req)
  obtain r c' where cr: "CallReq env c req = (r, c')" by (cases "CallReq env c req")
  show ?thesis
  proof (cases r)
    case (Inl err)
    with Inr cr show ?thesis by (simp add: Call_def)
  next
    case (Inr resp)
    from Call_response_fails [of env resp] obtain copy err
      where "Call_response env resp = Return (None, Some copy, Some err)" by blast
    with Inr \<open>Call_request env c method endpoint data = Inr req\<close> cr show ?thesis
      by (simp add: Call_def)
  qed
qed

lemma no_error_Call: "no_error (fst (Call env c method endpoint data)) = Return False"
  using Call_fails [of env c "method" endpoint data] by (auto simp: no_error_def)

lemma decode_copy_Call:
  "\<exists>err. decode_copy env k (fst (Call env c method endpoint data)) = Return (None, Some err)"
  using Call_fails [of env c "method" endpoint data] by (auto simp: decode_copy_def)

lemma Heartbeat_False: "fst (Heartbeat env c) = Return False"
  by (simp add: Heartbeat_def split_beta no_error_Call)

lemma VenueHealthCheck_False: "fst (VenueHealthCheck env c venue) = Return False"
  by (simp add: VenueHealthCheck_def split_beta no_error_Call)

lemma ListVenueStocks_fails: "\<exists>err. fst (ListVenueStocks env c venue) = Return (None, Some err)"
  using Call_fails [of env c "''GET''" "''/venues/'' @ venue @ ''/stocks''" GoNil]
  by (auto simp: ListVenueStocks_def split_beta)

text \<open>
  Claim C3. Whatever response the transport returns, the part of Call after the
  transport returns a nil map and an error, the InvalidUnmarshalError of decoding into
  the map itself or the error of reading the body. So Call always returns an error,
  Heartbeat and VenueHealthCheck return false, and every typed method returns a nil
  result with the error of Call: none of them reaches the decoder of its own struct.
\<close>

theorem every_response_is_an_error:
  "(\<exists>copy err. Call_response env resp = Return (None, Some copy, Some err)
      \<and> (err = InvalidUnmarshalError \<or> (\<exists>msg. err = ReadError msg)))
   \<and> (\<exists>b copy err. fst (Call env c method endpoint data) = Return (b, copy, Some err))
   \<and> fst (Heartbeat env c) = Return False
   \<and> fst (VenueHealthCheck env c venue) = Return False
   \<and> (\<exists>err. fst (ListVenueStocks env c venue) = Return (None, Some err))
   \<and> (\<exists>err. fst (GetStockOrderbook env c venue stock) = Return (None, Some err))
   \<and> (\<exists>err. fst (PlaceStockOrder env c account venue stock price qty direction ordertype)
               = Return (None, Some err))
   \<and> (\<exists>err. fst (QuoteStock env c venue stock) = Return (None, Some err))
   \<and> (\<exists>err. fst (GetOrderStatus env c venue stock order) = Return (None, Some err))
   \<and> (\<exists>err. fst (CancelOrder env c venue stock order) = Return (None, Some err))
   \<and> (\<exists>err. fst (ListVenueOrderStatus env c venue account) = Return (None, Some err))
   \<and> (\<exists>err. fst (ListVenueStockOrderStatus env c venue stock account) = Return (None, Some err))"
  by (simp add: Call_response_fails Call_fails Heartbeat_False VenueHealthCheck_False
      ListVenueStocks_fails GetStockOrderbook_def PlaceStockOrder_def QuoteStock_def
      GetOrderStatus_def CancelOrder_def ListVenueOrderStatus_def ListVenueStockOrderStatus_def
      split_beta decode_copy_Call)

section \<open>What the transport is given\<close>

lemma Call_request_refused:
  "NewRequest_err env m (Location c @ endpoint) = Some msg \<Longrightarrow>
     Call_request env c m endpoint data = Inl (NewRequestError msg)"
  by (simp add: Call_request_def NewRequest_def Encode_def)

lemma Call_request_built:
  "NewRequest_err env m (Location c @ endpoint) = None \<Longrightarrow>
     \<exists>req. Call_request env c m endpoint data = Inr req
       \<and> URL req = parsedURL env (Location c @ endpoint) \<and> Header req = Map.empty"
  by (simp add: Call_request_def NewRequest_def Encode_def)

lemma CallReq_recording:
  "CallReq (recording env) c req = (r, c') \<Longrightarrow>
     sends c c' [req\<lparr>Header := Header_Add (Header req) AuthHeader (Token c)\<rparr>]"
  by (auto simp: CallReq_def recording_def sends_def split: prod.splits sum.splits)

lemma CallReq_all_sent:
  "all_sent c (snd (CallReq (recording env) c req))
     (\<lambda>r. Header r AuthHeader
             = Some ((case Header req AuthHeader of None \<Rightarrow> [] | Some vs \<Rightarrow> vs) @ [Token c])
          \<and> URL r = URL req)"
proof -
  obtain r c' where cr: "CallReq (recording env) c req = (r, c')"
    by (cases "CallReq (recording env) c req")
  define r' where "r' = req\<lparr>Header := Header_Add (Header req) AuthHeader (Token c)\<rparr>"
  have "sends c c' [r']"
    using CallReq_recording [OF cr] by (simp only: r'_def)
  moreover have "Header r' AuthHeader
      = Some ((case Header req AuthHeader of None \<Rightarrow> [] | Some vs \<Rightarrow> vs) @ [Token c])
      \<and> URL r' = URL req"
    by (simp add: r'_def Header_Add_def)
  ultimately show ?thesis
    unfolding all_sent_def cr by (intro exI [of _ "[r']"]) simp
qed

lemma recording_simps:
  "NewRequest_err (recording env) = NewRequest_err env"
  "parsedURL (recording env) = parsedURL env"
  by (simp_all add: recording_def)

lemma Call_sends_built:
  "sends_built env c (snd (Call (recording env) c m endpoint data)) m endpoint"
proof (cases "NewRequest_err env m (Location c @ endpoint)")
  case (Some msg)
  then have "Call_request (recording env) c m endpoint data = Inl (NewRequestError msg)"
    by (intro Call_request_refused) (simp add: recording_simps)
  with Some show ?thesis
    by (simp add: sends_built_def Call_def sends_def)
next
  case None
  then have "NewRequest_err (recording env) m (Location c @ endpoint) = None"
    by (simp add: recording_simps)
  from Call_request_built [OF this, of data] obtain req where
    req: "Call_request (recording env) c m endpoint data = Inr req"
    and shape: "URL req = parsedURL env (Location c @ endpoint)" "Header req = Map.empty"
    by (auto simp: recording_simps)
  obtain r c' where cr: "CallReq (recording env) c req = (r, c')"
    by (cases "CallReq (recording env) c req")
  have c': "snd (Call (recording env) c m endpoint data) = c'"
    using req cr by (cases r) (simp_all add: Call_def)
  define r' where "r' = req\<lparr>Header := Header_Add (Header req) AuthHeader (Token c)\<rparr>"
  have "has_token c r' \<and> URL r' = parsedURL env (Location c @ endpoint)"
    using shape by (simp add: r'_def has_token_def Header_Add_def)
  moreover have "sends c c' [r']"
    using CallReq_recording [OF cr] by (simp only: r'_def)
  ultimately have "\<exists>r. sends c c' [r] \<and> has_token c r
      \<and> URL r = parsedURL env (Location c @ endpoint)"
    by blast
  with None show ?thesis
    by (simp add: sends_built_def c')
qed

lemma sends_built_has_token:
  "sends_built env c c' m endpoint \<Longrightarrow> all_sent c c' (has_token c)"
  unfolding sends_built_def all_sent_def
  by (cases "NewRequest_err env m (Location c @ endpoint)") (auto intro: exI [of _ "[]"])

lemma sends_built_carries:
  "sends_built env c c' m endpoint \<Longrightarrow>
   parsedURL env (Location c @ endpoint) = Location c @ endpoint \<Longrightarrow>
   all_sent c c' (carries c endpoint)"
  unfolding sends_built_def all_sent_def carries_def has_token_def
  by (cases "NewRequest_err env m (Location c @ endpoint)") (auto intro: exI [of _ "[]"])

lemma Call_has_token: "all_sent c (snd (Call (recording env) c m endpoint data)) (has_token c)"
  using Call_sends_built by (rule sends_built_has_token)

lemma Call_carries:
  "parsedURL env (Location c @ endpoint) = Location c @ endpoint \<longrightarrow>
     all_sent c (snd (Call (recording env) c m endpoint data)) (carries c endpoint)"
  using sends_built_carries [OF Call_sends_built] by blast

lemmas wrapper_defs =
  Heartbeat_def VenueHealthCheck_def ListVenueStocks_def GetStockOrderbook_def
  PlaceStockOrder_def QuoteStock_def GetOrderStatus_def CancelOrder_def
  ListVenueOrderStatus_def ListVenueStockOrderStatus_def

lemmas run_defs =
  Call_def Call_request_def Call_response_def Call_check_def CallReq_def NewRequest_def
  Encode_def Decode_value_def Decode_pointer_def Header_Add_def recording_def fake_def
  example_client_def index_def escape_spaces_def APILocation_def

text \<open>
  Claim C6, as amended. Where http.NewRequest accepts the method and the string made
  of the client's location and the endpoint, Call gives the transport exactly one
  request, and otherwise none. That request has the client's token as the one value of
  the header X-Starfighter-Authorization, and its URL is what http.NewRequest makes of
  that string: the string itself wherever parsing leaves it as it is. The same holds
  for Heartbeat, VenueHealthCheck, ListVenueStocks, GetStockOrderbook, PlaceStockOrder,
  QuoteStock, GetOrderStatus, CancelOrder and ListVenueOrderStatus, each with its
  method and its path. Every request of ListVenueStockOrderStatus has the token as the
  one value of the header; of its path nothing is said here. CallReq itself appends
  the token to the values the header of its request already has, and leaves the URL.
\<close>

theorem every_request_carries_token_and_parsed_location:
  "sends_built env c (snd (Call (recording env) c m endpoint data)) m endpoint
   \<and> (parsedURL env (Location c @ endpoint) = Location c @ endpoint \<longrightarrow>
        all_sent c (snd (Call (recording env) c m endpoint data)) (carries c endpoint))
   \<and> all_sent c (snd (CallReq (recording env) c req))
       (\<lambda>r. Header r AuthHeader
               = Some ((case Header req AuthHeader of None \<Rightarrow> [] | Some vs \<Rightarrow> vs) @ [Token c])
            \<and> URL r = URL req)
   \<and> sends_built env c (snd (Heartbeat (recording env) c)) ''GET'' ''/heartbeat''
   \<and> sends_built env c (snd (VenueHealthCheck (recording env) c venue))
       ''GET'' (''/venues/'' @ venue @ ''/heartbeat'')
   \<and> sends_built env c (snd (ListVenueStocks (recording env) c venue))
       ''GET'' (''/venues/'' @ venue @ ''/stocks'')
   \<and> sends_built env c (snd (GetStockOrderbook (recording env) c venue stock))
       ''GET'' (''/venues/'' @ venue @ ''/stocks/'' @ stock)
   \<and> sends_built env c (snd (PlaceStockOrder (recording env) c account venue stock price qty
                            direction ordertype))
       ''POST'' (''/venues/'' @ venue @ ''/stocks/'' @ stock @ ''/orders'')
   \<and> sends_built env c (snd (QuoteStock (recording env) c venue stock))
       ''GET'' (''/venues/'' @ venue @ ''/stocks/'' @ stock @ ''/quote'')
   \<and> sends_built env c (snd (GetOrderStatus (recording env) c venue stock order))
       ''GET'' (''/venues/'' @ venue @ ''/stocks/'' @ stock @ ''/orders/'' @ Sprintf_d order)
   \<and> sends_built env c (snd (CancelOrder (recording env) c venue stock order))
       ''DELETE'' (''/venues/'' @ venue @ ''/stocks/'' @ stock @ ''/orders/'' @ Sprintf_d order)
   \<and> sends_built env c (snd (ListVenueOrderStatus (recording env) c venue account))
       ''GET'' (''/venues/'' @ venue @ ''/accounts/'' @ account @ ''/orders'')
   \<and> all_sent c (snd (ListVenueStockOrderStatus (recording env) c venue stock account))
       (has_token c)"
  by (intro conjI Call_carries)
     (simp_all only: wrapper_defs split_beta snd_conv Let_def Call_sends_built Call_has_token
        CallReq_all_sent)

theorem every_request_carries_token_and_parsed_location_witness:
  "parsedURL (fake (Inr \<lparr>StatusCode = 200, Body = ''{}''\<rparr>) (Inr (GoMap [])))
       (Location example_client @ ''/heartbeat'')
     = Location example_client @ ''/heartbeat''
   \<and> all_sent example_client
       (snd (Call (recording (fake (Inr \<lparr>StatusCode = 200, Body = ''{}''\<rparr>) (Inr (GoMap []))))
          example_client ''GET'' ''/heartbeat'' GoNil))
       (carries example_client ''/heartbeat'')
   \<and> sends_built (fake (Inr \<lparr>StatusCode = 200, Body = ''{}''\<rparr>) (Inr (GoMap []))) example_client
       (snd (Heartbeat (recording (fake (Inr \<lparr>StatusCode = 200, Body = ''{}''\<rparr>) (Inr (GoMap []))))
          example_client))
       ''GET'' ''/heartbeat''
   \<and> map URL (snd (Client (snd (Heartbeat
        (recording (fake (Inr \<lparr>StatusCode = 200, Body = ''{}''\<rparr>) (Inr (GoMap []))))
        example_client))))
     = [APILocation @ ''/heartbeat'']
   \<and> map (\<lambda>r. Header r AuthHeader) (snd (Client (snd (Heartbeat
        (recording (fake (Inr \<lparr>StatusCode = 200, Body = ''{}''\<rparr>) (Inr (GoMap []))))
        example_client))))
     = [Some [''secret'']]"
proof -
  let ?env = "fake (Inr \<lparr>StatusCode = 200, Body = ''{}''\<rparr>) (Inr (GoMap []))"
  have unchanged: "parsedURL ?env (Location example_client @ ''/heartbeat'')
      = Location example_client @ ''/heartbeat''"
    by (simp add: fake_def escape_spaces_def example_client_def APILocation_def)
  note all = every_request_carries_token_and_parsed_location
    [where env = ?env and c = example_client and m = "''GET''" and endpoint = "''/heartbeat''"
       and data = GoNil]
  from all unchanged
  have "all_sent example_client
      (snd (Call (recording ?env) example_client ''GET'' ''/heartbeat'' GoNil))
      (carries example_client ''/heartbeat'')"
    by blast
  moreover from all
  have "sends_built ?env example_client (snd (Heartbeat (recording ?env) example_client))
      ''GET'' ''/heartbeat''"
    by blast
  moreover have "map URL (snd (Client (snd (Heartbeat (recording ?env) example_client))))
      = [APILocation @ ''/heartbeat'']"
    by (simp add: run_defs Heartbeat_def split_beta)
  moreover have "map (\<lambda>r. Header r AuthHeader)
      (snd (Client (snd (Heartbeat (recording ?env) example_client)))) = [Some [''secret'']]"
    by (simp add: run_defs Heartbeat_def split_beta AuthHeader_def)
  ultimately show ?thesis
    using unchanged by blast
qed

text \<open>
  Claim C6 as it was stated, that the URL of every request is the client's location
  followed by the path, fails where parsing changes the string: the health check of the
  venue \<^verbatim>\<open>a b\<close> is requested at \<^verbatim>\<open>/venues/a%20b/heartbeat\<close>.
\<close>

theorem request_URL_is_not_the_concatenation:
  "map URL (snd (Client (snd (VenueHealthCheck
      (recording (fake (Inr \<lparr>StatusCode = 200, Body = ''{}''\<rparr>) (Inr (GoMap []))))
      example_client ''a b''))))
     = [APILocation @ ''/venues/a%20b/heartbeat'']
   \<and> \<not> all_sent example_client
        (snd (VenueHealthCheck
           (recording (fake (Inr \<lparr>StatusCode = 200, Body = ''{}''\<rparr>) (Inr (GoMap []))))
           example_client ''a b''))
        (carries example_client (''/venues/'' @ ''a b'' @ ''/heartbeat''))"
  by (simp add: run_defs VenueHealthCheck_def split_beta all_sent_def sends_def carries_def)

section \<open>The configuration of the client\<close>

lemma CallReq_same_config: "same_config c (snd (CallReq env c req))"
  by (auto simp: same_config_def CallReq_def split: sum.splits prod.splits)

lemma Call_same_config: "same_config c (snd (Call env c m endpoint data))"
  using CallReq_same_config [of c env]
  by (auto simp: Call_def same_config_def split: sum.splits prod.splits)
     (metis snd_conv)+

text \<open>
  Claim C9. No operation of the client assigns to its configuration: after CallReq,
  Call and each typed method, the fields Token and Location of the client are what
  they were before; only the transport state may differ.
\<close>

theorem configuration_is_preserved:
  "same_config c (snd (CallReq env c req))
   \<and> same_config c (snd (Call env c m endpoint data))
   \<and> same_config c (snd (Heartbeat env c))
   \<and> same_config c (snd (VenueHealthCheck env c venue))
   \<and> same_config c (snd (ListVenueStocks env c venue))
   \<and> same_config c (snd (GetStockOrderbook env c venue stock))
   \<and> same_config c (snd (PlaceStockOrder env c account venue stock price qty direction ordertype))
   \<and> same_config c (snd (QuoteStock env c venue stock))
   \<and> same_config c (snd (GetOrderStatus env c venue stock order))
   \<and> same_config c (snd (CancelOrder env c venue stock order))
   \<and> same_config c (snd (ListVenueOrderStatus env c venue account))
   \<and> same_config c (snd (ListVenueStockOrderStatus env c venue stock account))"
  by (simp only: wrapper_defs split_beta snd_conv Let_def Call_same_config CallReq_same_config
      simp_thms)

section \<open>Failures of the transport\<close>

text \<open>
  Claim C8. Where http.NewRequest refuses the request, and where the transport fails
  on the request Call built, Call returns nil results and that very error, which is
  not an APIError: the one place that builds an APIError comes after the response.
\<close>

theorem transport_failure_is_returned:
  "(NewRequest_err env m (Location c @ endpoint) = Some msg \<longrightarrow>
      fst (Call env c m endpoint data) = Return (None, None, Some (NewRequestError msg)))
   \<and> (Call_request env c m endpoint data = Inr req \<and>
       fst (Do env (Client c) (req\<lparr>Header := Header_Add (Header req) AuthHeader (Token c)\<rparr>))
         = Inl cause \<longrightarrow>
      fst (Call env c m endpoint data) = Return (None, None, Some (UrlError cause)))
   \<and> \<not> is_APIError (NewRequestError msg) \<and> \<not> is_APIError (UrlError cause)"
  by (auto simp: Call_def Call_request_def NewRequest_def Encode_def CallReq_def is_APIError_def
      split: prod.splits sum.splits)

theorem transport_failure_is_returned_witness:
  "Call_request (fake (Inl ''connection refused'') (Inr GoNil))
      \<lparr>Token = ''secret'', Location = APILocation, Client = ()\<rparr> ''GET'' ''/heartbeat'' GoNil
     = Inr \<lparr>Method = ''GET'', URL = APILocation @ ''/heartbeat'', Header = Map.empty,
            ReqBody = Some (''null'' @ [CHR 0x0A])\<rparr>
   \<and> fst (Call (fake (Inl ''connection refused'') (Inr GoNil))
            \<lparr>Token = ''secret'', Location = APILocation, Client = ()\<rparr> ''GET'' ''/heartbeat'' GoNil)
     = Return (None, None, Some (UrlError ''connection refused''))
   \<and> NewRequest_err ((fake (Inl ''connection refused'') (Inr GoNil))
                        \<lparr>NewRequest_err := (\<lambda>method url. Some ''invalid method'')\<rparr>)
        ''G E T'' (APILocation @ ''/heartbeat'') = Some ''invalid method''
   \<and> fst (Call ((fake (Inl ''connection refused'') (Inr GoNil))
                   \<lparr>NewRequest_err := (\<lambda>method url. Some ''invalid method'')\<rparr>)
            \<lparr>Token = ''secret'', Location = APILocation, Client = ()\<rparr> ''G E T'' ''/heartbeat''
            GoNil)
     = Return (None, None, Some (NewRequestError ''invalid method''))"
proof -
  let ?c = "\<lparr>Token = ''secret'', Location = APILocation, Client = ()\<rparr>"
  let ?env = "fake (Inl ''connection refused'') (Inr GoNil)"
  let ?req = "\<lparr>Method = ''GET'', URL = APILocation @ ''/heartbeat'', Header = Map.empty,
               ReqBody = Some (''null'' @ [CHR 0x0A])\<rparr>"
  let ?env' = "?env\<lparr>NewRequest_err := (\<lambda>method url. Some ''invalid method'')\<rparr>"
  have built: "Call_request ?env ?c ''GET'' ''/heartbeat'' GoNil = Inr ?req"
    by (simp add: Call_request_def Encode_def NewRequest_def fake_def escape_spaces_def
        APILocation_def)
  have failed: "fst (Do ?env (Client ?c)
      (?req\<lparr>Header := Header_Add (Header ?req) AuthHeader (Token ?c)\<rparr>)) = Inl ''connection refused''"
    by (simp add: fake_def)
  have refused: "NewRequest_err ?env' ''G E T'' (Location ?c @ ''/heartbeat'') = Some ''invalid method''"
    by simp
  from transport_failure_is_returned
    [of ?env "''GET''" ?c "''/heartbeat''" "[]" GoNil ?req "''connection refused''"]
    built failed
  have "fst (Call ?env ?c ''GET'' ''/heartbeat'' GoNil)
      = Return (None, None, Some (UrlError ''connection refused''))"
    by blast
  moreover from transport_failure_is_returned
    [of ?env' "''G E T''" ?c "''/heartbeat''" "''invalid method''" GoNil ?req "[]"] refused
  have "fst (Call ?env' ?c ''G E T'' ''/heartbeat'' GoNil)
      = Return (None, None, Some (NewRequestError ''invalid method''))"
    by blast
  ultimately show ?thesis
    using built by simp
qed

section \<open>The check of the decoded body\<close>

text \<open>
  Claim C10. The lines of Call that build the APIError do not always return: for
  every body whose \<open>ok\<close> is not the boolean false and whose \<open>error\<close> is missing or
  not a string, the type assertion \<^verbatim>\<open>body["error"].(string)\<close> fails and the
  check panics, whatever the status code.
\<close>

theorem api_error_construction_panics:
  assumes "index body ''ok'' \<noteq> GoBool False"
    and "\<forall>msg. index body ''error'' \<noteq> GoString msg"
  shows "Call_check status body copy = Panic"
  using assms by (cases "index body ''error''") (simp_all add: Call_check_def)

theorem api_error_construction_panics_witness:
  "index [(''ok'', GoBool True), (''symbol'', GoString ''AAPL'')] ''ok'' \<noteq> GoBool False
   \<and> (\<forall>msg. index [(''ok'', GoBool True), (''symbol'', GoString ''AAPL'')] ''error''
              \<noteq> GoString msg)
   \<and> Call_check 200 [(''ok'', GoBool True), (''symbol'', GoString ''AAPL'')] ''{}'' = Panic"
proof -
  let ?body = "[(''ok'', GoBool True), (''symbol'', GoString ''AAPL'')]"
  have ok: "index ?body ''ok'' \<noteq> GoBool False"
    by (simp add: index_def)
  have no_message: "\<forall>msg. index ?body ''error'' \<noteq> GoString msg"
    by (simp add: index_def)
  from api_error_construction_panics [OF ok no_message] ok no_message
  show ?thesis by blast
qed

section \<open>Where the code departs from its description\<close>

text \<open>
  Claim C1 says that Call fails with an APIError exactly when \<open>ok\<close> is the boolean
  false, with the status code and the \<open>error\<close> string of the body. On the response
  with status 400 and the body \<^verbatim>\<open>{"ok": false, "error": "insufficient funds"}\<close>
  Call returns the InvalidUnmarshalError of its decoder, not an APIError; and on the map
  this body decodes to, the check of \<open>ok\<close> returns no error at all.
\<close>

theorem Call_ok_false_is_not_an_APIError:
  \<open>fst (Call (fake (Inr \<lparr>StatusCode = 400,
                          Body = ''{"ok": false, "error": "insufficient funds"}''\<rparr>)
                 (Inr (GoMap [(''ok'', GoBool False),
                              (''error'', GoString ''insufficient funds'')])))
          \<lparr>Token = ''secret'', Location = APILocation, Client = ()\<rparr> ''GET'' ''/heartbeat'' GoNil)
     = Return (None, Some ''{"ok": false, "error": "insufficient funds"}'',
               Some InvalidUnmarshalError)
   \<and> Call_check 400 [(''ok'', GoBool False), (''error'', GoString ''insufficient funds'')]
        ''{"ok": false, "error": "insufficient funds"}''
     = Return (Some [(''ok'', GoBool False), (''error'', GoString ''insufficient funds'')],
               Some ''{"ok": false, "error": "insufficient funds"}'', None)\<close>
  by (simp add: run_defs)

text \<open>
  Claim C2 says that a non-nil payload is sent as the JSON body and that a nil payload
  sends no body. Call tests \<^verbatim>\<open>data == nil\<close> before encoding: the request with a
  payload goes out with no body, and the request with the nil payload goes out with
  the body \<^verbatim>\<open>null\<close> and a newline.
\<close>

theorem Call_sends_a_body_only_for_nil:
  "map ReqBody (snd (Client (snd (Call
      (recording (fake (Inr \<lparr>StatusCode = 200, Body = ''{}''\<rparr>) (Inr (GoMap []))))
      example_client ''POST'' ''/venues/TESTEX/stocks/FOO/orders''
      (GoMap [(''account'', GoString ''acct1''), (''qty'', GoInt64 10)])))))
     = [None]
   \<and> map ReqBody (snd (Client (snd (Call
      (recording (fake (Inr \<lparr>StatusCode = 200, Body = ''{}''\<rparr>) (Inr (GoMap []))))
      example_client ''GET'' ''/heartbeat'' GoNil))))
     = [Some (''null'' @ [CHR 0x0A])]"
  by (simp add: run_defs)

text \<open>
  Claim C4 says that PlaceStockOrder posts its seven fields as the JSON body and that
  every other typed method sends no body. The POST of
  PlaceStockOrder("acct1", "TESTEX", "FOO", 100, 10, "buy", "limit") has no body, and
  the GET of Heartbeat, a method with no payload, has the body \<^verbatim>\<open>null\<close>.
\<close>

theorem PlaceStockOrder_sends_no_body:
  "map (\<lambda>r. (Method r, ReqBody r)) (snd (Client (snd (PlaceStockOrder
      (recording (fake (Inr \<lparr>StatusCode = 200, Body = ''{}''\<rparr>) (Inr (GoMap []))))
      example_client ''acct1'' ''TESTEX'' ''FOO'' 100 10 ''buy'' ''limit''))))
     = [(''POST'', None)]
   \<and> map (\<lambda>r. (Method r, ReqBody r)) (snd (Client (snd (Heartbeat
      (recording (fake (Inr \<lparr>StatusCode = 200, Body = ''{}''\<rparr>) (Inr (GoMap []))))
      example_client))))
     = [(''GET'', Some (''null'' @ [CHR 0x0A]))]"
  by (simp add: run_defs PlaceStockOrder_def Heartbeat_def split_beta)

text \<open>
  Claim C5 says that ListVenueStockOrderStatus(v, s, a) requests
  /venues/v/accounts/a/stocks/s/orders. For the venue TESTEX, the stock FOO and the
  account acct1 the request goes to /venues/TESTEX/accounts/FOO/stocks/acct1/orders:
  the stock stands where the account belongs, and the account where the stock belongs.
\<close>

theorem ListVenueStockOrderStatus_swaps_stock_and_account:
  "map (\<lambda>r. (Method r, URL r)) (snd (Client (snd (ListVenueStockOrderStatus
      (recording (fake (Inr \<lparr>StatusCode = 200, Body = ''{}''\<rparr>) (Inr (GoMap []))))
      example_client ''TESTEX'' ''FOO'' ''acct1''))))
     = [(''GET'', APILocation @ ''/venues/TESTEX/accounts/FOO/stocks/acct1/orders'')]"
  by (simp add: run_defs ListVenueStockOrderStatus_def split_beta)

text \<open>
  Claim C7 says that ListVenueStocks returns the one Stock Apple/AAPL, and no error, on
  the body \<^verbatim>\<open>{"ok": true, "symbols": [{"name":"Apple","symbol":"AAPL"}]}\<close>. It
  returns no stocks and the InvalidUnmarshalError of Call. On the map this body decodes
  to, moreover, the check of \<open>ok\<close> in Call panics, and so does the conversion of the
  symbols, whose two type assertions on the same value exclude each other.
\<close>

theorem ListVenueStocks_returns_no_stock:
  \<open>fst (ListVenueStocks
          (fake (Inr \<lparr>StatusCode = 200,
                      Body = ''{"ok": true, "symbols": [{"name":"Apple","symbol":"AAPL"}]}''\<rparr>)
                (Inr (GoMap [(''ok'', GoBool True),
                             (''symbols'', GoSlice [GoMap [(''name'', GoString ''Apple''),
                                                           (''symbol'', GoString ''AAPL'')]])])))
          \<lparr>Token = ''secret'', Location = APILocation, Client = ()\<rparr> ''TESTEX'')
     = Return (None, Some InvalidUnmarshalError)
   \<and> Call_check 200 [(''ok'', GoBool True),
                      (''symbols'', GoSlice [GoMap [(''name'', GoString ''Apple''),
                                                    (''symbol'', GoString ''AAPL'')]])]
        ''{"ok": true, "symbols": [{"name":"Apple","symbol":"AAPL"}]}'' = Panic
   \<and> ListVenueStocks_symbols
        (Some [(''ok'', GoBool True),
               (''symbols'', GoSlice [GoMap [(''name'', GoString ''Apple''),
                                             (''symbol'', GoString ''AAPL'')]])]) = Panic\<close>
  by (simp add: run_defs ListVenueStocks_def ListVenueStocks_symbols_def split_beta)

end
